theory Spec2Isabelle
  imports Main "HOL-Library.Sublist"
begin

text \<open>
  The authentication and authorization middleware of the PrimeTrade API
  (\<open>middleware/auth\<close>), its global error handler (\<open>middleware/errorHandler\<close>) and the
  two product routes whose access checks the properties below are about. A middleware
  is a function from the request to what it does with it; the token library, the clock
  and the process environment are parameters; the relational store is a pair of tables.
\<close>

section \<open>JavaScript values\<close>

text \<open>
  The values that can sit in a request location (\<open>req.resourceUserId\<close>,
  \<open>req.body.userId\<close>, \<open>req.params.userId\<close>). Numbers are the integers a JSON body can
  carry exactly; \<open>JRef\<close> stands for an object or an array, identified by its reference.
  Equality of the datatype is JavaScript's \<open>===\<close> on these values.
\<close>

datatype jsval = JUndefined | JNull | JBool bool | JNum int | JStr string | JRef nat

fun truthy :: "jsval \<Rightarrow> bool" where
  "truthy JUndefined = False"
| "truthy JNull = False"
| "truthy (JBool b) = b"
| "truthy (JNum n) = (n \<noteq> 0)"
| "truthy (JStr s) = (s \<noteq> [])"
| "truthy (JRef r) = True"

text \<open>The operator \<open>a || b\<close>.\<close>

definition js_or :: "jsval \<Rightarrow> jsval \<Rightarrow> jsval" where
  "js_or a b = (if truthy a then a else b)"

section \<open>Data model\<close>

text \<open>
  A row of the Users table, with the columns of the documented schema: UUID primary key,
  unique username and email, \<open>password\<close> holding the bcrypt hash, \<open>role\<close> one of
  \<open>user\<close> and \<open>admin\<close>. A lookup that names no attributes returns the row whole;
  the lookups of \<open>routes/v1/users\<close> ask for \<open>exclude: ['password']\<close>.
\<close>

record user =
  uid :: string
  username :: string
  email :: string
  password :: string
  role :: string
  isActive :: bool

text \<open>A row of the Products table (models/Product).\<close>

record product =
  pid :: string
  pname :: string
  description :: string
  price :: string
  stock :: int
  category :: string
  userId :: string
  createdAt :: nat

text \<open>
  A thrown JavaScript error: its \<open>name\<close>, its \<open>message\<close>, its \<open>statusCode\<close>
  when it has one as an own enumerable property, the only kind that the spread
  \<open>{ ...err }\<close> copies (a status inherited from the prototype, as on the errors of the
  body parser, counts as none), its \<open>stack\<close>, and for a Sequelize validation error the
  messages of the items of \<open>err.errors\<close>.
\<close>

record js_error =
  err_name :: string
  err_message :: string
  err_statusCode :: "nat option"
  err_stack :: "string option"
  err_errors :: "string list"

text \<open>The decoded payload of a token: \<open>decoded.id\<close> and whatever else was signed.\<close>

record jwt_payload =
  tok_id :: "string option"
  tok_claims :: "(string \<times> jsval) list"

text \<open>
  The process environment and the external collaborators: \<open>jwt.verify\<close> of the
  jsonwebtoken library (a function of the token, the secret and the clock, which either
  throws or returns the payload), \<open>process.env.JWT_SECRET\<close>,
  \<open>process.env.NODE_ENV\<close>, and the relational engine's \<open>ILIKE\<close> operator
  (value first, pattern second).
\<close>

record env =
  jwt_verify :: "string \<Rightarrow> string option \<Rightarrow> nat \<Rightarrow> js_error + jwt_payload"
  JWT_SECRET :: "string option"
  clock :: nat
  NODE_ENV :: "string option"
  sql_iLike :: "string \<Rightarrow> string \<Rightarrow> bool"

text \<open>
  The relational store: the two tables, and \<open>db_fault\<close>, the error every query rejects
  with while the store is failing (connection lost, and so on).
\<close>

record db =
  db_users :: "user list"
  db_products :: "product list"
  db_fault :: "js_error option"

section \<open>Requests, responses and the outcome of a middleware\<close>

datatype qparam = Absent | NotInt | IsInt int

record query =
  q_page :: qparam
  q_limit :: qparam
  q_category :: "string option"
  q_search :: "string option"

record request =
  authorization :: "string option"
  req_user :: "user option"
  resourceUserId :: jsval
  body_userId :: jsval
  params_userId :: jsval
  params_id :: string
  req_query :: query

record owner_view =
  owner_id :: string
  owner_username :: string
  owner_email :: string

record listed_product = product +
  owner :: "owner_view option"

record pagination =
  pg_page :: int
  pg_limit :: int
  pg_total :: int
  pg_pages :: int

record page_data =
  products :: "listed_product list"
  pagination :: pagination

text \<open>
  The JSON body sent with a status: \<open>success\<close> always, the other keys when the call
  site writes them.
\<close>

record response =
  status :: nat
  success :: bool
  message :: "string option"
  error :: "string option"
  stack :: "string option"
  errors :: "string list option"
  data :: "page_data option"

text \<open>\<open>res.status(st).json({ success: false, message: msg })\<close>\<close>

definition failure :: "nat \<Rightarrow> string \<Rightarrow> response" where
  "failure st msg =
     \<lparr>status = st, success = False, message = Some msg, error = None, stack = None,
      errors = None, data = None\<rparr>"

text \<open>
  What the client gets from a call \<open>res.status(st).json(body)\<close>. Node refuses a status
  outside 100..999: the call throws a \<open>RangeError\<close>, nothing has been sent, and when the
  call was the global error handler's, Express's final handler answers with its own
  error page and status 500. Informational statuses, 204, 205 and 304 go out without a
  body. Every other status goes out with the JSON body. The request's method and cache
  validators are outside the model.
\<close>

datatype reply = Json response | NoBody nat | ErrorPage nat

definition res_json :: "response \<Rightarrow> reply" where
  "res_json r =
     (if status r < 100 \<or> 999 < status r then ErrorPage 500
      else if status r < 200 \<or> status r = 204 \<or> status r = 205 \<or> status r = 304
        then NoBody (status r)
      else Json r)"

text \<open>
  What a middleware or handler does with a request: call \<open>next()\<close> with the request
  as it has left it, answer the client itself, or pass an error to Express
  (\<open>next(error)\<close>, or an exception thrown synchronously), which hands it to the global
  error handler.
\<close>

datatype outcome = Next request | Respond response | Forward js_error

text \<open>The \<open>TypeError\<close> of reading a property of \<open>undefined\<close>, in the wording of
  Node 16 and later.\<close>

definition type_error :: "string \<Rightarrow> js_error" where
  "type_error prop =
     (let msg = ''Cannot read properties of undefined (reading '' @ [CHR 0x27] @ prop @
                [CHR 0x27] @ '')''
      in \<lparr>err_name = ''TypeError'', err_message = msg, err_statusCode = None,
          err_stack = Some (''TypeError: '' @ msg), err_errors = []\<rparr>)"

section \<open>middleware/auth\<close>

text \<open>
  \<open>User.findByPk(key)\<close>: rejects while the store fails (a key the engine refuses is
  such a failure), resolves to \<open>null\<close> for a missing key or an unknown one, and to the
  row otherwise.
\<close>

definition User_findByPk :: "db \<Rightarrow> string option \<Rightarrow> js_error + user option" where
  "User_findByPk d key =
     (case db_fault d of
        Some e \<Rightarrow> Inl e
      | None \<Rightarrow>
          Inr (case key of None \<Rightarrow> None | Some k \<Rightarrow> find (\<lambda>u. uid u = k) (db_users d)))"

text \<open>The \<open>catch\<close> block of \<open>authenticate\<close>.\<close>

definition authenticate_catch :: "js_error \<Rightarrow> outcome" where
  "authenticate_catch e =
     (if err_name e = ''JsonWebTokenError'' then Respond (failure 401 ''Invalid token.'')
      else if err_name e = ''TokenExpiredError''
        then Respond (failure 401 ''Token has expired. Please login again.'')
      else Respond ((failure 500 ''Authentication error.'')\<lparr>error := Some (err_message e)\<rparr>))"

definition authenticate :: "env \<Rightarrow> db \<Rightarrow> request \<Rightarrow> outcome" where
  "authenticate en d req =
     (case authorization req of
        None \<Rightarrow>
          Respond (failure 401 ''Authentication required. Please provide a valid token.'')
      | Some authHeader \<Rightarrow>
          if authHeader = [] \<or> \<not> prefix ''Bearer '' authHeader
          then Respond (failure 401 ''Authentication required. Please provide a valid token.'')
          else
            let token = drop 7 authHeader in
            (case jwt_verify en token (JWT_SECRET en) (clock en) of
               Inl e \<Rightarrow> authenticate_catch e
             | Inr decoded \<Rightarrow>
                 (case User_findByPk d (tok_id decoded) of
                    Inl e \<Rightarrow> authenticate_catch e
                  | Inr found \<Rightarrow>
                      (case found of
                         None \<Rightarrow> Respond (failure 401 ''Invalid or inactive user token.'')
                       | Some u \<Rightarrow>
                           if \<not> isActive u
                           then Respond (failure 401 ''Invalid or inactive user token.'')
                           else Next (req\<lparr>req_user := Some u\<rparr>)))))"

definition authorizeAdmin :: "request \<Rightarrow> outcome" where
  "authorizeAdmin req =
     (case req_user req of
        None \<Rightarrow> Forward (type_error ''role'')
      | Some u \<Rightarrow>
          if role u \<noteq> ''admin''
          then Respond (failure 403 ''Access denied. Admin privileges required.'')
          else Next req)"

text \<open>
  \<open>req.resourceUserId || req.body.userId || req.params.userId\<close>. Express's JSON body
  parser leaves \<open>req.body\<close> an object and the router leaves \<open>req.params\<close> an object,
  so the two property reads yield a value or \<open>undefined\<close>.
\<close>

definition resolve_resourceUserId :: "request \<Rightarrow> jsval" where
  "resolve_resourceUserId req =
     js_or (js_or (resourceUserId req) (body_userId req)) (params_userId req)"

definition authorizeOwnerOrAdmin :: "request \<Rightarrow> outcome" where
  "authorizeOwnerOrAdmin req =
     (let rid = resolve_resourceUserId req in
      case req_user req of
        None \<Rightarrow> Forward (type_error ''role'')
      | Some u \<Rightarrow>
          if role u = ''admin'' \<or> JStr (uid u) = rid
          then Next req
          else Respond (failure 403 ''Access denied. You can only access your own resources.''))"

text \<open>Running a gate after a middleware: only \<open>next()\<close> reaches the gate.\<close>

definition and_then :: "outcome \<Rightarrow> (request \<Rightarrow> outcome) \<Rightarrow> outcome" where
  "and_then out f = (case out of Next req \<Rightarrow> f req | Respond r \<Rightarrow> Respond r | Forward e \<Rightarrow> Forward e)"

section \<open>middleware/errorHandler\<close>

text \<open>\<open>Array.prototype.join\<close>\<close>

fun join :: "string \<Rightarrow> string list \<Rightarrow> string" where
  "join sep [] = []"
| "join sep [x] = x"
| "join sep (x # y # ys) = x @ sep @ join sep (y # ys)"

text \<open>The local object \<open>error\<close>: the two properties of it that the handler reads.\<close>

record norm_error =
  statusCode :: "nat option"
  norm_message :: string

definition errorHandler :: "env \<Rightarrow> js_error \<Rightarrow> reply" where
  "errorHandler en err =
     (let error0 = \<lparr>statusCode = err_statusCode err, norm_message = err_message err\<rparr>;
          error1 =
            (if err_name err = ''SequelizeValidationError''
             then \<lparr>statusCode = Some 400,
                   norm_message = ''Validation Error: '' @ join '', '' (err_errors err)\<rparr>
             else error0);
          error2 =
            (if err_name err = ''SequelizeUniqueConstraintError''
             then \<lparr>statusCode = Some 409,
                   norm_message = ''Duplicate entry. This record already exists.''\<rparr>
             else error1);
          error3 =
            (if err_name err = ''SequelizeForeignKeyConstraintError''
             then \<lparr>statusCode = Some 400,
                   norm_message = ''Invalid reference. Related record does not exist.''\<rparr>
             else error2);
          error4 =
            (if err_name err = ''JsonWebTokenError''
             then \<lparr>statusCode = Some 401, norm_message = ''Invalid token.''\<rparr>
             else error3);
          error5 =
            (if err_name err = ''TokenExpiredError''
             then \<lparr>statusCode = Some 401, norm_message = ''Token expired.''\<rparr>
             else error4)
      in res_json
           \<lparr>status = (case statusCode error5 of None \<Rightarrow> 500 | Some n \<Rightarrow> if n = 0 then 500 else n),
            success = False,
            message = Some (if norm_message error5 = [] then ''Server Error'' else norm_message error5),
            error = None,
            stack = (if NODE_ENV en = Some ''development'' then err_stack err else None),
            errors = None,
            data = None\<rparr>)"

text \<open>
  Express after a middleware or handler: a forwarded error is answered by the global
  error handler, a direct answer goes out as it is, \<open>next()\<close> goes on.
\<close>

definition client_response :: "env \<Rightarrow> outcome \<Rightarrow> reply option" where
  "client_response en out =
     (case out of
        Next req \<Rightarrow> None
      | Respond r \<Rightarrow> Some (res_json r)
      | Forward e \<Rightarrow> Some (errorHandler en e))"

section \<open>routes/v1/products\<close>

text \<open>The sanitizer \<open>trim()\<close>, on ASCII whitespace.\<close>

definition is_space :: "char \<Rightarrow> bool" where
  "is_space c = (c \<in> set [CHR 0x20, CHR 0x09, CHR 0x0A, CHR 0x0B, CHR 0x0C, CHR 0x0D])"

definition trim :: "string \<Rightarrow> string" where
  "trim s = rev (dropWhile is_space (rev (dropWhile is_space s)))"

text \<open>
  A query parameter read as an integer is \<open>Absent\<close>, \<open>NotInt\<close> (a string that the
  validator \<open>isInt\<close> refuses) or \<open>IsInt n\<close> (an integer literal of value \<open>n\<close>). The
  validation chain of \<open>GET /\<close> and the messages of \<open>errors.array()\<close>:
\<close>

definition validate_list :: "query \<Rightarrow> string list" where
  "validate_list q =
     (case q_page q of
        Absent \<Rightarrow> []
      | NotInt \<Rightarrow> [''Page must be a positive integer'']
      | IsInt n \<Rightarrow> if 1 \<le> n then [] else [''Page must be a positive integer''])
     @
     (case q_limit q of
        Absent \<Rightarrow> []
      | NotInt \<Rightarrow> [''Limit must be between 1 and 100'']
      | IsInt n \<Rightarrow> if 1 \<le> n \<and> n \<le> 100 then [] else [''Limit must be between 1 and 100''])"

definition sanitize_list :: "query \<Rightarrow> query" where
  "sanitize_list q =
     q\<lparr>q_category := map_option trim (q_category q), q_search := map_option trim (q_search q)\<rparr>"

text \<open>
  \<open>parseInt(x) || dflt\<close>. The handler reads it only after the validators have let the
  parameter through, so \<open>NotInt\<close> never gets here; \<open>NaN\<close> and \<open>0\<close> give the default.
\<close>

definition parseInt_or :: "qparam \<Rightarrow> int \<Rightarrow> int" where
  "parseInt_or x dflt =
     (case x of Absent \<Rightarrow> dflt | NotInt \<Rightarrow> dflt | IsInt n \<Rightarrow> if n = 0 then dflt else n)"

text \<open>The \<open>where\<close> clause of the listing: each key is a condition when it is set.\<close>

record pwhere =
  w_category :: "string option"
  w_name_iLike :: "string option"
  w_userId :: "string option"

definition matches :: "env \<Rightarrow> pwhere \<Rightarrow> product \<Rightarrow> bool" where
  "matches en w p =
     ((case w_category w of None \<Rightarrow> True | Some c \<Rightarrow> category p = c) \<and>
      (case w_name_iLike w of None \<Rightarrow> True | Some pat \<Rightarrow> sql_iLike en (pname p) pat) \<and>
      (case w_userId w of None \<Rightarrow> True | Some i \<Rightarrow> userId p = i))"

text \<open>The \<open>include\<close> of the owner, with the three attributes asked for.\<close>

definition with_owner :: "db \<Rightarrow> product \<Rightarrow> listed_product" where
  "with_owner d p =
     \<lparr>pid = pid p, pname = pname p, description = description p, price = price p,
      stock = stock p, category = category p, userId = userId p, createdAt = createdAt p,
      owner =
        map_option (\<lambda>u. \<lparr>owner_id = uid u, owner_username = username u, owner_email = email u\<rparr>)
          (find (\<lambda>u. uid u = userId p) (db_users d))\<rparr>"

text \<open>
  \<open>Product.findAndCountAll({ where, limit, offset, order: createdAt DESC, include })\<close>:
  the count of the matching rows and the requested page of them, latest first (rows of
  the same instant in the reverse of the table's order).
\<close>

definition Product_findAndCountAll ::
  "env \<Rightarrow> db \<Rightarrow> pwhere \<Rightarrow> int \<Rightarrow> int \<Rightarrow> js_error + (int \<times> listed_product list)" where
  "Product_findAndCountAll en d w limit offset =
     (case db_fault d of
        Some e \<Rightarrow> Inl e
      | None \<Rightarrow>
          let matching = filter (matches en w) (db_products d);
              ordered = rev (sort_key createdAt matching)
          in Inr (int (length matching),
                  map (with_owner d) (take (nat limit) (drop (nat offset) ordered))))"

text \<open>\<open>Math.ceil(a / b)\<close> on integers, \<open>b\<close> positive.\<close>

definition ceil_div :: "int \<Rightarrow> int \<Rightarrow> int" where
  "ceil_div a b = - ((- a) div b)"

definition build_where :: "query \<Rightarrow> user \<Rightarrow> pwhere" where
  "build_where q u =
     (let where0 = \<lparr>w_category = None, w_name_iLike = None, w_userId = None\<rparr>;
          where1 =
            (case q_category q of
               None \<Rightarrow> where0
             | Some c \<Rightarrow> if c \<noteq> [] then where0\<lparr>w_category := Some c\<rparr> else where0);
          where2 =
            (case q_search q of
               None \<Rightarrow> where1
             | Some s \<Rightarrow> if s \<noteq> [] then where1\<lparr>w_name_iLike := Some (''%'' @ s @ ''%'')\<rparr> else where1)
      in if role u \<noteq> ''admin'' then where2\<lparr>w_userId := Some (uid u)\<rparr> else where2)"

text \<open>The handler of \<open>GET /api/v1/products\<close>, behind \<open>authenticate\<close>.\<close>

definition list_products :: "env \<Rightarrow> db \<Rightarrow> request \<Rightarrow> outcome" where
  "list_products en d req =
     (let q = sanitize_list (req_query req);
          errs = validate_list q
      in if errs \<noteq> []
         then Respond ((failure 400 ''Validation failed'')\<lparr>errors := Some errs\<rparr>)
         else
           let page = parseInt_or (q_page q) 1;
               limit = parseInt_or (q_limit q) 10;
               offset = (page - 1) * limit
           in (case req_user req of
                 None \<Rightarrow> Forward (type_error ''role'')
               | Some u \<Rightarrow>
                   (case Product_findAndCountAll en d (build_where q u) limit offset of
                      Inl e \<Rightarrow> Forward e
                    | Inr (count, rows) \<Rightarrow>
                        Respond
                          \<lparr>status = 200, success = True, message = None, error = None,
                           stack = None, errors = None,
                           data = Some \<lparr>products = rows,
                                        pagination = \<lparr>pg_page = page, pg_limit = limit,
                                                      pg_total = count,
                                                      pg_pages = ceil_div count limit\<rparr>\<rparr>\<rparr>)))"

text \<open>The handler of \<open>DELETE /api/v1/products/:id\<close>, with the store it leaves.\<close>

definition delete_product :: "db \<Rightarrow> request \<Rightarrow> outcome \<times> db" where
  "delete_product d req =
     (case db_fault d of
        Some e \<Rightarrow> (Forward e, d)
      | None \<Rightarrow>
          (case find (\<lambda>p. pid p = params_id req) (db_products d) of
             None \<Rightarrow> (Respond (failure 404 ''Product not found''), d)
           | Some product \<Rightarrow>
               (case req_user req of
                  None \<Rightarrow> (Forward (type_error ''role''), d)
                | Some u \<Rightarrow>
                    if role u \<noteq> ''admin'' \<and> userId product \<noteq> uid u
                    then (Respond (failure 403 ''Access denied. You can only delete your own products.''), d)
                    else
                      (Respond ((failure 200 ''Product deleted successfully'')\<lparr>success := True\<rparr>),
                       d\<lparr>db_products := filter (\<lambda>p. pid p \<noteq> pid product) (db_products d)\<rparr>))))"

section \<open>The vocabulary of the properties\<close>

text \<open>
  The precedence as the specification words it: a location is present when it holds
  anything but \<open>undefined\<close>, and the first present location, in the order
  handler-attached field, body field, path parameter, gives the owner id.
\<close>

definition present :: "jsval \<Rightarrow> bool" where
  "present v = (v \<noteq> JUndefined)"

definition spec_first_present :: "request \<Rightarrow> jsval" where
  "spec_first_present req =
     (if present (resourceUserId req) then resourceUserId req
      else if present (body_userId req) then body_userId req
      else params_userId req)"

text \<open>The same precedence over truthy values, the path parameter last whatever it holds.\<close>

definition first_truthy :: "request \<Rightarrow> jsval" where
  "first_truthy req =
     (if truthy (resourceUserId req) then resourceUserId req
      else if truthy (body_userId req) then body_userId req
      else params_userId req)"

text \<open>A request has failed when the chain stops; its error reaches the global error
  handler when it was forwarded.\<close>

definition failed :: "outcome \<Rightarrow> bool" where
  "failed out = (case out of Next req \<Rightarrow> False | Respond r \<Rightarrow> True | Forward e \<Rightarrow> True)"

definition to_normalizer :: "outcome \<Rightarrow> bool" where
  "to_normalizer out = (case out of Next req \<Rightarrow> False | Respond r \<Rightarrow> False | Forward e \<Rightarrow> True)"


text \<open>
  What a chain of middleware decides, apart from the request it passes on: the account
  the handler will see, the answer sent, or the error forwarded.
\<close>

datatype verdict = Allowed "user option" | Denied response | Errored js_error

definition verdict_of :: "outcome \<Rightarrow> verdict" where
  "verdict_of out =
     (case out of Next req \<Rightarrow> Allowed (req_user req) | Respond r \<Rightarrow> Denied r | Forward e \<Rightarrow> Errored e)"

definition resolved_identity :: "outcome \<Rightarrow> (string \<times> string) option" where
  "resolved_identity out =
     (case out of
        Next req \<Rightarrow> map_option (\<lambda>u. (uid u, role u)) (req_user req)
      | Respond r \<Rightarrow> None
      | Forward e \<Rightarrow> None)"

text \<open>The owner column of the rows in the answer a handler has sent itself.\<close>

definition shown_owners :: "outcome \<Rightarrow> string list option" where
  "shown_owners out =
     (case out of
        Next req \<Rightarrow> None
      | Respond r \<Rightarrow> map_option (map userId \<circ> products) (data r)
      | Forward e \<Rightarrow> None)"

section \<open>A sample deployment\<close>

text \<open>
  Three accounts, two products and a token verifier that knows a handful of tokens, for
  the concrete runs below. The token \<open>alice-as-admin\<close> carries a role claim that the
  store does not back.
\<close>

definition sample_expired :: js_error where
  "sample_expired =
     \<lparr>err_name = ''TokenExpiredError'', err_message = ''jwt expired'', err_statusCode = None,
      err_stack = Some ''TokenExpiredError: jwt expired'', err_errors = []\<rparr>"

definition sample_malformed :: js_error where
  "sample_malformed =
     \<lparr>err_name = ''JsonWebTokenError'', err_message = ''jwt malformed'', err_statusCode = None,
      err_stack = Some ''JsonWebTokenError: jwt malformed'', err_errors = []\<rparr>"




definition sample_refused :: js_error where
  "sample_refused =
     \<lparr>err_name = ''SequelizeConnectionRefusedError'',
      err_message = ''connect ECONNREFUSED 127.0.0.1:5432'',
      err_statusCode = None, err_stack = None, err_errors = []\<rparr>"


definition sample_verify :: "string \<Rightarrow> string option \<Rightarrow> nat \<Rightarrow> js_error + jwt_payload" where
  "sample_verify token secret now =
     (if secret \<noteq> Some ''s3cret'' then Inl sample_malformed
      else if token = ''alice'' then
        (if now \<le> 3600 then Inr \<lparr>tok_id = Some ''u-alice'', tok_claims = []\<rparr>
         else Inl sample_expired)
      else if token = ''alice-as-admin'' then
        (if now \<le> 3600
         then Inr \<lparr>tok_id = Some ''u-alice'', tok_claims = [(''role'', JStr ''admin'')]\<rparr>
         else Inl sample_expired)
      else if token = ''bob'' then Inr \<lparr>tok_id = Some ''u-bob'', tok_claims = []\<rparr>
      else if token = ''root'' then Inr \<lparr>tok_id = Some ''u-root'', tok_claims = []\<rparr>
      else if token = ''ghost'' then Inr \<lparr>tok_id = Some ''u-ghost'', tok_claims = []\<rparr>
      else if token = ''old'' then Inl sample_expired
      else Inl sample_malformed)"

definition sample_env :: env where
  "sample_env =
     \<lparr>jwt_verify = sample_verify, JWT_SECRET = Some ''s3cret'', clock = 1800,
      NODE_ENV = Some ''production'', sql_iLike = (\<lambda>v pat. True)\<rparr>"

definition alice :: user where
  "alice = \<lparr>uid = ''u-alice'', username = ''alice'', email = ''alice@example.com'',
            password = ''$2b$10$hashA'', role = ''user'', isActive = True\<rparr>"

definition bob :: user where
  "bob = \<lparr>uid = ''u-bob'', username = ''bob'', email = ''bob@example.com'',
          password = ''$2b$10$hashB'', role = ''user'', isActive = False\<rparr>"

definition root :: user where
  "root = \<lparr>uid = ''u-root'', username = ''root'', email = ''root@example.com'',
           password = ''$2b$10$hashR'', role = ''admin'', isActive = True\<rparr>"

definition laptop :: product where
  "laptop = \<lparr>pid = ''p-1'', pname = ''Laptop Pro 15'', description = ''High-performance laptop'',
             price = ''1299.99'', stock = 50, category = ''Electronics'', userId = ''u-alice'',
             createdAt = 10\<rparr>"

definition mouse :: product where
  "mouse = \<lparr>pid = ''p-2'', pname = ''Wireless Mouse'', description = ''Ergonomic wireless mouse'',
            price = ''29.99'', stock = 200, category = ''Accessories'', userId = ''u-root'',
            createdAt = 20\<rparr>"

definition sample_db :: db where
  "sample_db = \<lparr>db_users = [alice, bob, root], db_products = [laptop, mouse], db_fault = None\<rparr>"

definition sample_request :: request where
  "sample_request =
     \<lparr>authorization = Some ''Bearer alice'', req_user = None, resourceUserId = JUndefined,
      body_userId = JUndefined, params_userId = JUndefined, params_id = ''p-1'',
      req_query = \<lparr>q_page = Absent, q_limit = Absent, q_category = None, q_search = None\<rparr>\<rparr>"

text \<open>The sample request with another \<open>Authorization\<close> header, and as \<open>authenticate\<close>
  leaves it for a given account.\<close>

definition with_header :: "string \<Rightarrow> request" where
  "with_header h = sample_request\<lparr>authorization := Some h\<rparr>"

definition request_of :: "user \<Rightarrow> request" where
  "request_of u = sample_request\<lparr>req_user := Some u\<rparr>"

lemmas sample_defs = sample_env_def sample_db_def sample_request_def sample_verify_def
  sample_expired_def sample_malformed_def alice_def bob_def root_def laptop_def mouse_def
  with_header_def request_of_def

section \<open>Facts about the middleware\<close>

lemma bearer_token:
  assumes "authorization req = Some (''Bearer '' @ token)"
  shows "authenticate en d req =
     (case jwt_verify en token (JWT_SECRET en) (clock en) of
        Inl e \<Rightarrow> authenticate_catch e
      | Inr decoded \<Rightarrow>
          (case User_findByPk d (tok_id decoded) of
             Inl e \<Rightarrow> authenticate_catch e
           | Inr found \<Rightarrow>
               (case found of
                  None \<Rightarrow> Respond (failure 401 ''Invalid or inactive user token.'')
                | Some u \<Rightarrow>
                    if \<not> isActive u
                    then Respond (failure 401 ''Invalid or inactive user token.'')
                    else Next (req\<lparr>req_user := Some u\<rparr>))))"
  using assms by (simp add: authenticate_def Let_def)

lemma authenticate_cases:
  "(\<exists>u. authenticate en d req = Next (req\<lparr>req_user := Some u\<rparr>))
   \<or> authenticate en d req =
        Respond (failure 401 ''Authentication required. Please provide a valid token.'')
   \<or> authenticate en d req = Respond (failure 401 ''Invalid or inactive user token.'')
   \<or> (\<exists>e. authenticate en d req = authenticate_catch e)"
  by (auto simp: authenticate_def Let_def split: option.splits sum.splits)

lemma authenticate_Next:
  assumes "authenticate en d req = Next req'"
  shows "\<exists>u h decoded. req' = req\<lparr>req_user := Some u\<rparr> \<and> isActive u \<and>
           authorization req = Some h \<and> h \<noteq> [] \<and> prefix ''Bearer '' h \<and>
           jwt_verify en (drop 7 h) (JWT_SECRET en) (clock en) = Inr decoded \<and>
           User_findByPk d (tok_id decoded) = Inr (Some u)"
  using assms
  by (auto simp: authenticate_def Let_def authenticate_catch_def
      split: option.splits sum.splits if_splits)

lemma User_findByPk_Some:
  assumes "User_findByPk d key = Inr (Some u)"
  shows "u \<in> set (db_users d) \<and> key = Some (uid u)"
  using assms
  by (auto simp: User_findByPk_def find_Some_iff split: option.splits)

text \<open>On success the context is a row of the Users table, whole.\<close>

lemma context_is_stored_row:
  assumes "authenticate en d req = Next req'"
  shows "\<exists>u \<in> set (db_users d). req_user req' = Some u"
proof -
  from authenticate_Next [OF assms] obtain u and decoded :: jwt_payload
    where u: "req' = req\<lparr>req_user := Some u\<rparr>"
      and f: "User_findByPk d (tok_id decoded) = Inr (Some u)"
    by blast
  from User_findByPk_Some [OF f] have "u \<in> set (db_users d)" ..
  with u show ?thesis by simp
qed

text \<open>The rows of a listing are rows of the table that satisfy the \<open>where\<close> clause.\<close>

lemma findAndCountAll_rows:
  assumes "Product_findAndCountAll en d w limit offset = Inr (count, rows)"
    and "p \<in> set rows"
  shows "\<exists>q \<in> set (db_products d). matches en w q \<and> p = with_owner d q"
proof -
  let ?page = "take (nat limit) (drop (nat offset)
      (rev (sort_key createdAt (filter (matches en w) (db_products d)))))"
  from assms(1) have "rows = map (with_owner d) ?page"
    by (auto simp: Product_findAndCountAll_def Let_def split: option.splits)
  with assms(2) obtain q where "p = with_owner d q" and "q \<in> set ?page"
    by auto
  moreover from this(2) have "q \<in> set (filter (matches en w) (db_products d))"
    by (auto dest!: in_set_takeD in_set_dropD)
  ultimately show ?thesis by auto
qed

text \<open>
  The check written inline in \<open>DELETE /:id\<close> decides as the ownership gate does, on the
  owner column of the row found.
\<close>

lemma delete_product_gate:
  assumes "db_fault d = None"
    and "find (\<lambda>p. pid p = params_id req) (db_products d) = Some row"
    and "req_user req = Some u"
  shows "(role u = ''user'' \<and> uid u \<noteq> userId row \<longrightarrow>
            delete_product d req =
              (Respond (failure 403 ''Access denied. You can only delete your own products.''), d))
     \<and> (role u = ''admin'' \<or> uid u = userId row \<longrightarrow>
            fst (delete_product d req) =
              Respond ((failure 200 ''Product deleted successfully'')\<lparr>success := True\<rparr>))"
  using assms by (auto simp: delete_product_def)

section \<open>The ownership gate\<close>

text \<open>
  Claim C1. For an authenticated context whose account has role \<open>user\<close> and whose id
  differs from the owner id the gate resolves, \<open>authorizeOwnerOrAdmin\<close> answers 403 and
  does not call \<open>next()\<close>; for an account of role \<open>admin\<close> it calls \<open>next()\<close> whatever
  the owner id is.
\<close>

theorem ownership_gate:
  assumes "req_user req = Some u"
  shows "(role u = ''user'' \<and> JStr (uid u) \<noteq> resolve_resourceUserId req \<longrightarrow>
            authorizeOwnerOrAdmin req =
              Respond (failure 403 ''Access denied. You can only access your own resources.''))
     \<and> (role u = ''admin'' \<longrightarrow> authorizeOwnerOrAdmin req = Next req)"
  using assms by (simp add: authorizeOwnerOrAdmin_def)

text \<open>Alice, a user, asks for a resource of Bob's; so does the administrator.\<close>

theorem ownership_gate_witness:
  "authorizeOwnerOrAdmin ((request_of alice)\<lparr>resourceUserId := JStr ''u-bob''\<rparr>) =
     Respond (failure 403 ''Access denied. You can only access your own resources.'')
   \<and> authorizeOwnerOrAdmin ((request_of root)\<lparr>resourceUserId := JStr ''u-bob''\<rparr>) =
       Next ((request_of root)\<lparr>resourceUserId := JStr ''u-bob''\<rparr>)"
proof -
  let ?r1 = "(request_of alice)\<lparr>resourceUserId := JStr ''u-bob''\<rparr>"
  let ?r2 = "(request_of root)\<lparr>resourceUserId := JStr ''u-bob''\<rparr>"
  have u1: "req_user ?r1 = Some alice" and u2: "req_user ?r2 = Some root"
    by (simp_all add: request_of_def)
  have a: "role alice = ''user'' \<and> JStr (uid alice) \<noteq> resolve_resourceUserId ?r1"
    by (simp add: alice_def resolve_resourceUserId_def js_or_def request_of_def sample_request_def)
  have b: "role root = ''admin''" by (simp add: root_def)
  from ownership_gate [OF u1] a ownership_gate [OF u2] b show ?thesis by blast
qed

text \<open>
  Claim C6, as stated: the id compared is the first present value in the order
  handler-attached field, body field, path parameter. It fails where a present value is
  falsy: with the empty string in the body and \<open>u-alice\<close> in the path, the body field
  is present and the specification's precedence yields it, while the gate compares the
  path parameter.
\<close>

theorem falsy_value_passed_over:
  "present (body_userId (sample_request\<lparr>body_userId := JStr [], params_userId := JStr ''u-alice''\<rparr>))
   \<and> spec_first_present
        (sample_request\<lparr>body_userId := JStr [], params_userId := JStr ''u-alice''\<rparr>) = JStr []
   \<and> resolve_resourceUserId
        (sample_request\<lparr>body_userId := JStr [], params_userId := JStr ''u-alice''\<rparr>) =
       JStr ''u-alice''"
  by (simp add: present_def spec_first_present_def resolve_resourceUserId_def js_or_def
      sample_request_def)

text \<open>
  Claim C6, amended. The id compared with the account's id is the first truthy value in
  the order handler-attached field, body field, path parameter, and the path parameter's
  value when neither of the first two is truthy; a present but falsy value (the empty
  string, 0, false, null) is passed over. A non-admin account passes the gate exactly
  when its id is that value. Where the handler-attached and body values are truthy
  whenever present, that value is the first present one.
\<close>

theorem first_truthy_precedence:
  "resolve_resourceUserId req = first_truthy req
   \<and> (req_user req = Some u \<and> role u \<noteq> ''admin'' \<longrightarrow>
        (authorizeOwnerOrAdmin req = Next req) = (JStr (uid u) = first_truthy req))
   \<and> ((\<forall>v \<in> {resourceUserId req, body_userId req}. present v \<longrightarrow> truthy v) \<longrightarrow>
        resolve_resourceUserId req = spec_first_present req)"
  by (auto simp: resolve_resourceUserId_def first_truthy_def js_or_def
      authorizeOwnerOrAdmin_def spec_first_present_def present_def)

text \<open>Alice with an empty body field and her id in the path; and with Bob's id in the body.\<close>

theorem first_truthy_precedence_witness:
  "authorizeOwnerOrAdmin
     ((request_of alice)\<lparr>body_userId := JStr [], params_userId := JStr ''u-alice''\<rparr>) =
     Next ((request_of alice)\<lparr>body_userId := JStr [], params_userId := JStr ''u-alice''\<rparr>)
   \<and> resolve_resourceUserId
       ((request_of alice)\<lparr>body_userId := JStr ''u-bob'', params_userId := JStr ''u-alice''\<rparr>) =
     JStr ''u-bob''"
proof -
  let ?r1 = "(request_of alice)\<lparr>body_userId := JStr [], params_userId := JStr ''u-alice''\<rparr>"
  let ?r2 = "(request_of alice)\<lparr>body_userId := JStr ''u-bob'', params_userId := JStr ''u-alice''\<rparr>"
  have a: "req_user ?r1 = Some alice \<and> role alice \<noteq> ''admin''"
    by (simp add: request_of_def alice_def)
  have b: "JStr (uid alice) = first_truthy ?r1"
    by (simp add: first_truthy_def request_of_def sample_request_def alice_def)
  have c: "\<forall>v \<in> {resourceUserId ?r2, body_userId ?r2}. present v \<longrightarrow> truthy v"
    by (simp add: request_of_def sample_request_def present_def)
  have d: "spec_first_present ?r2 = JStr ''u-bob''"
    by (simp add: spec_first_present_def present_def request_of_def sample_request_def)
  from first_truthy_precedence [of ?r1 alice] a b
  have "authorizeOwnerOrAdmin ?r1 = Next ?r1" by blast
  moreover from first_truthy_precedence [of ?r2 alice] c
  have "resolve_resourceUserId ?r2 = spec_first_present ?r2" by blast
  ultimately show ?thesis using d by simp
qed

section \<open>Authentication\<close>

text \<open>
  Claim C2. For a request whose bearer token verifies, if the subject id finds no account
  or finds an account whose active flag is false, \<open>authenticate\<close> answers 401, and with
  one and the same body in the two cases.
\<close>

theorem unknown_and_inactive_alike:
  assumes "authorization req = Some (''Bearer '' @ token)"
    and "jwt_verify en token (JWT_SECRET en) (clock en) = Inr decoded"
    and "User_findByPk d (tok_id decoded) = Inr found"
    and "found = None \<or> (\<exists>u. found = Some u \<and> \<not> isActive u)"
  shows "authenticate en d req = Respond (failure 401 ''Invalid or inactive user token.'')
     \<and> client_response en (authenticate en d req) =
         Some (Json \<lparr>status = 401, success = False,
                     message = Some ''Invalid or inactive user token.'',
                     error = None, stack = None, errors = None, data = None\<rparr>)"
  using assms by (auto simp: bearer_token client_response_def res_json_def failure_def)

text \<open>A token for an id the store does not hold, and a token for the inactive Bob.\<close>

theorem unknown_and_inactive_alike_witness:
  "authenticate sample_env sample_db (with_header ''Bearer ghost'') =
     Respond (failure 401 ''Invalid or inactive user token.'')
   \<and> authenticate sample_env sample_db (with_header ''Bearer bob'') =
     Respond (failure 401 ''Invalid or inactive user token.'')"
proof -
  have g1: "authorization (with_header ''Bearer ghost'') = Some (''Bearer '' @ ''ghost'')"
    by (simp add: with_header_def)
  have g2: "jwt_verify sample_env ''ghost'' (JWT_SECRET sample_env) (clock sample_env) =
              Inr \<lparr>tok_id = Some ''u-ghost'', tok_claims = []\<rparr>"
    by (simp add: sample_env_def sample_verify_def)
  have g3: "User_findByPk sample_db (tok_id \<lparr>tok_id = Some ''u-ghost'', tok_claims = []\<rparr>) =
              Inr None"
    by (simp add: User_findByPk_def sample_db_def alice_def bob_def root_def)
  have b1: "authorization (with_header ''Bearer bob'') = Some (''Bearer '' @ ''bob'')"
    by (simp add: with_header_def)
  have b2: "jwt_verify sample_env ''bob'' (JWT_SECRET sample_env) (clock sample_env) =
              Inr \<lparr>tok_id = Some ''u-bob'', tok_claims = []\<rparr>"
    by (simp add: sample_env_def sample_verify_def)
  have b3: "User_findByPk sample_db (tok_id \<lparr>tok_id = Some ''u-bob'', tok_claims = []\<rparr>) =
              Inr (Some bob)"
    by (simp add: User_findByPk_def sample_db_def alice_def bob_def root_def)
  have b4: "Some bob = None \<or> (\<exists>u. Some bob = Some u \<and> \<not> isActive u)"
    by (simp add: bob_def)
  from unknown_and_inactive_alike [OF g1 g2 g3] unknown_and_inactive_alike [OF b1 b2 b3 b4]
  show ?thesis by simp
qed

text \<open>
  Claim C3 says that the context handed on by \<open>authenticate\<close> leaves out the hashed
  password. The code attaches the row as \<open>User.findByPk\<close> returned it: for Alice's
  valid token the context is her whole row, and its \<open>password\<close> is the stored hash.
\<close>

theorem context_carries_password_hash:
  "authenticate sample_env sample_db sample_request = Next (request_of alice)
   \<and> map_option password (req_user (request_of alice)) = Some ''$2b$10$hashA''"
  by (simp add: authenticate_def Let_def User_findByPk_def sample_defs)

text \<open>
  Claim C8. When \<open>jwt.verify\<close> throws, \<open>authenticate\<close> answers 401 in both cases, with
  a message that says the token is invalid for a \<open>JsonWebTokenError\<close> and a different
  one that says it has expired for a \<open>TokenExpiredError\<close>; the global error handler
  tells the two apart in the same way.
\<close>

theorem invalid_and_expired_messages:
  assumes "authorization req = Some (''Bearer '' @ token)"
    and "jwt_verify en token (JWT_SECRET en) (clock en) = Inl e"
  shows "(err_name e = ''JsonWebTokenError'' \<longrightarrow>
            authenticate en d req = Respond (failure 401 ''Invalid token.'') \<and>
            errorHandler en e =
              Json \<lparr>status = 401, success = False, message = Some ''Invalid token.'',
                    error = None,
                    stack = (if NODE_ENV en = Some ''development'' then err_stack e else None),
                    errors = None, data = None\<rparr>)
     \<and> (err_name e = ''TokenExpiredError'' \<longrightarrow>
            authenticate en d req =
              Respond (failure 401 ''Token has expired. Please login again.'') \<and>
            errorHandler en e =
              Json \<lparr>status = 401, success = False, message = Some ''Token expired.'',
                    error = None,
                    stack = (if NODE_ENV en = Some ''development'' then err_stack e else None),
                    errors = None, data = None\<rparr>)
     \<and> failure 401 ''Invalid token.'' \<noteq> failure 401 ''Token has expired. Please login again.''"
  using assms
  by (simp add: bearer_token authenticate_catch_def errorHandler_def res_json_def failure_def)

text \<open>A token the verifier does not know, and one it knows to have expired.\<close>

theorem invalid_and_expired_messages_witness:
  "authenticate sample_env sample_db (with_header ''Bearer garbage'') =
     Respond (failure 401 ''Invalid token.'')
   \<and> authenticate sample_env sample_db (with_header ''Bearer old'') =
     Respond (failure 401 ''Token has expired. Please login again.'')"
proof -
  have g1: "authorization (with_header ''Bearer garbage'') = Some (''Bearer '' @ ''garbage'')"
    by (simp add: with_header_def)
  have g2: "jwt_verify sample_env ''garbage'' (JWT_SECRET sample_env) (clock sample_env) =
              Inl sample_malformed"
    by (simp add: sample_env_def sample_verify_def)
  have g3: "err_name sample_malformed = ''JsonWebTokenError''"
    by (simp add: sample_malformed_def)
  have o1: "authorization (with_header ''Bearer old'') = Some (''Bearer '' @ ''old'')"
    by (simp add: with_header_def)
  have o2: "jwt_verify sample_env ''old'' (JWT_SECRET sample_env) (clock sample_env) =
              Inl sample_expired"
    by (simp add: sample_env_def sample_verify_def)
  have o3: "err_name sample_expired = ''TokenExpiredError''"
    by (simp add: sample_expired_def)
  from invalid_and_expired_messages [OF g1 g2, of sample_db] g3
       invalid_and_expired_messages [OF o1 o2, of sample_db] o3
  show ?thesis by blast
qed

text \<open>
  Claim C7. The role the gates read is the role of the row the store holds for the
  token's subject id, never a claim of the token: two tokens that verify to the same
  subject id, whatever else they carry, lead \<open>authenticate\<close> alone, the role gate after
  it and the ownership gate after it to the same decision over the same store; and the
  account handed on is the store's row for that id.
\<close>

theorem role_from_store_not_token:
  fixes p1 p2 :: jwt_payload
  assumes "jwt_verify en t1 (JWT_SECRET en) (clock en) = Inr p1"
    and "jwt_verify en t2 (JWT_SECRET en) (clock en) = Inr p2"
    and "tok_id p1 = tok_id p2"
  shows "verdict_of (authenticate en d (req\<lparr>authorization := Some (''Bearer '' @ t1)\<rparr>)) =
         verdict_of (authenticate en d (req\<lparr>authorization := Some (''Bearer '' @ t2)\<rparr>))
     \<and> verdict_of (and_then (authenticate en d (req\<lparr>authorization := Some (''Bearer '' @ t1)\<rparr>))
           authorizeAdmin) =
       verdict_of (and_then (authenticate en d (req\<lparr>authorization := Some (''Bearer '' @ t2)\<rparr>))
           authorizeAdmin)
     \<and> verdict_of (and_then (authenticate en d (req\<lparr>authorization := Some (''Bearer '' @ t1)\<rparr>))
           authorizeOwnerOrAdmin) =
       verdict_of (and_then (authenticate en d (req\<lparr>authorization := Some (''Bearer '' @ t2)\<rparr>))
           authorizeOwnerOrAdmin)
     \<and> (\<forall>r u. authenticate en d (req\<lparr>authorization := Some (''Bearer '' @ t1)\<rparr>) = Next r \<and>
                req_user r = Some u \<longrightarrow>
              find (\<lambda>s. uid s = uid u) (db_users d) = Some u \<and> tok_id p1 = Some (uid u))"
proof -
  let ?r1 = "req\<lparr>authorization := Some (''Bearer '' @ t1)\<rparr>"
  let ?r2 = "req\<lparr>authorization := Some (''Bearer '' @ t2)\<rparr>"
  have h1: "authorization ?r1 = Some (''Bearer '' @ t1)"
    and h2: "authorization ?r2 = Some (''Bearer '' @ t2)" by simp_all
  have a: "verdict_of (authenticate en d ?r1) = verdict_of (authenticate en d ?r2)"
    unfolding bearer_token [OF h1] bearer_token [OF h2] using assms
    by (simp add: verdict_of_def split: sum.splits option.splits)
  have b: "verdict_of (and_then (authenticate en d ?r1) authorizeAdmin) =
           verdict_of (and_then (authenticate en d ?r2) authorizeAdmin)"
    unfolding bearer_token [OF h1] bearer_token [OF h2] using assms
    by (simp add: verdict_of_def and_then_def authorizeAdmin_def authenticate_catch_def
        split: sum.splits option.splits)
  have c: "verdict_of (and_then (authenticate en d ?r1) authorizeOwnerOrAdmin) =
           verdict_of (and_then (authenticate en d ?r2) authorizeOwnerOrAdmin)"
    unfolding bearer_token [OF h1] bearer_token [OF h2] using assms
    by (simp add: verdict_of_def and_then_def authorizeOwnerOrAdmin_def
        resolve_resourceUserId_def authenticate_catch_def split: sum.splits option.splits)
  have e: "\<forall>r u. authenticate en d ?r1 = Next r \<and> req_user r = Some u \<longrightarrow>
              find (\<lambda>s. uid s = uid u) (db_users d) = Some u \<and> tok_id p1 = Some (uid u)"
    unfolding bearer_token [OF h1] using assms(1)
    by (auto simp: authenticate_catch_def User_findByPk_def find_Some_iff
        split: sum.splits option.splits if_splits)
  from a b c e show ?thesis by blast
qed

text \<open>
  Alice's plain token and her token with an embedded admin claim: the role gate refuses
  both, since the store says \<open>user\<close>.
\<close>

theorem role_from_store_not_token_witness:
  "verdict_of (and_then (authenticate sample_env sample_db
        (sample_request\<lparr>authorization := Some (''Bearer '' @ ''alice-as-admin'')\<rparr>)) authorizeAdmin) =
     Denied (failure 403 ''Access denied. Admin privileges required.'')
   \<and> verdict_of (and_then (authenticate sample_env sample_db
        (sample_request\<lparr>authorization := Some (''Bearer '' @ ''alice'')\<rparr>)) authorizeAdmin) =
     Denied (failure 403 ''Access denied. Admin privileges required.'')"
proof -
  have v1: "jwt_verify sample_env ''alice-as-admin'' (JWT_SECRET sample_env) (clock sample_env) =
              Inr \<lparr>tok_id = Some ''u-alice'', tok_claims = [(''role'', JStr ''admin'')]\<rparr>"
    by (simp add: sample_env_def sample_verify_def)
  have v2: "jwt_verify sample_env ''alice'' (JWT_SECRET sample_env) (clock sample_env) =
              Inr \<lparr>tok_id = Some ''u-alice'', tok_claims = []\<rparr>"
    by (simp add: sample_env_def sample_verify_def)
  have same: "tok_id \<lparr>tok_id = Some ''u-alice'', tok_claims = [(''role'', JStr ''admin'')]\<rparr> =
              tok_id \<lparr>tok_id = Some ''u-alice'', tok_claims = []\<rparr>"
    by simp
  have plain: "verdict_of (and_then (authenticate sample_env sample_db
        (sample_request\<lparr>authorization := Some (''Bearer '' @ ''alice'')\<rparr>)) authorizeAdmin) =
     Denied (failure 403 ''Access denied. Admin privileges required.'')"
    by (simp add: authenticate_def Let_def User_findByPk_def and_then_def authorizeAdmin_def
        verdict_of_def sample_defs)
  from role_from_store_not_token [OF v1 v2 same, of sample_db sample_request] plain
  show ?thesis by simp
qed

text \<open>
  Claim C9. \<open>authenticate\<close> is a function of the Authorization header, the Users table
  and the store's health, the signing secret and the clock: two runs that agree on these
  resolve the same identity and take the same decision, whatever else differs in the
  request, the environment or the store; and a second run on the request the first one
  passed on passes the same request on again.
\<close>

theorem authenticate_deterministic:
  assumes "authorization r1 = authorization r2"
    and "jwt_verify en1 = jwt_verify en2" and "JWT_SECRET en1 = JWT_SECRET en2"
    and "clock en1 = clock en2"
    and "db_users d1 = db_users d2" and "db_fault d1 = db_fault d2"
  shows "resolved_identity (authenticate en1 d1 r1) = resolved_identity (authenticate en2 d2 r2)
     \<and> verdict_of (authenticate en1 d1 r1) = verdict_of (authenticate en2 d2 r2)
     \<and> (\<forall>r'. authenticate en1 d1 r1 = Next r' \<longrightarrow> authenticate en1 d1 r' = Next r')"
proof -
  have f: "User_findByPk d1 = User_findByPk d2"
    using assms(5,6) by (simp add: User_findByPk_def fun_eq_iff split: option.splits)
  have v: "verdict_of (authenticate en1 d1 r1) = verdict_of (authenticate en2 d2 r2)"
    using assms(1-4) f
    by (simp add: authenticate_def Let_def verdict_of_def authenticate_catch_def
        split: option.splits sum.splits)
  then have i: "resolved_identity (authenticate en1 d1 r1) =
                resolved_identity (authenticate en2 d2 r2)"
    by (cases "authenticate en1 d1 r1"; cases "authenticate en2 d2 r2")
       (simp_all add: verdict_of_def resolved_identity_def)
  have s: "\<forall>r'. authenticate en1 d1 r1 = Next r' \<longrightarrow> authenticate en1 d1 r' = Next r'"
  proof (intro allI impI)
    fix r' assume n: "authenticate en1 d1 r1 = Next r'"
    from authenticate_Next [OF n] show "authenticate en1 d1 r' = Next r'"
      by (auto simp: authenticate_def Let_def)
  qed
  from i v s show ?thesis by blast
qed

text \<open>
  The sample request run twice, the second time on the request the first run passed on,
  in development mode and over a store that has lost its products.
\<close>

theorem authenticate_deterministic_witness:
  "resolved_identity (authenticate sample_env sample_db sample_request) = Some (''u-alice'', ''user'')
   \<and> resolved_identity
       (authenticate (sample_env\<lparr>NODE_ENV := Some ''development''\<rparr>)
          (sample_db\<lparr>db_products := []\<rparr>) (request_of alice)) = Some (''u-alice'', ''user'')
   \<and> authenticate sample_env sample_db (request_of alice) = Next (request_of alice)"
proof -
  let ?en = "sample_env\<lparr>NODE_ENV := Some ''development''\<rparr>"
  let ?d = "sample_db\<lparr>db_products := []\<rparr>"
  have first: "authenticate sample_env sample_db sample_request = Next (request_of alice)"
    by (simp add: authenticate_def Let_def User_findByPk_def sample_defs)
  have h: "authorization sample_request = authorization (request_of alice)"
    by (simp add: request_of_def)
  from authenticate_deterministic [of sample_request "request_of alice" sample_env ?en sample_db ?d] h
  have "resolved_identity (authenticate sample_env sample_db sample_request) =
        resolved_identity (authenticate ?en ?d (request_of alice))
     \<and> (\<forall>r'. authenticate sample_env sample_db sample_request = Next r' \<longrightarrow>
           authenticate sample_env sample_db r' = Next r')"
    by simp
  with first show ?thesis
    by (simp add: resolved_identity_def request_of_def alice_def)
qed

section \<open>Error handling\<close>

text \<open>
  Claim C4, as stated: every failure in the middleware chain is formatted by the global
  error handler and no middleware writes its own error body. It fails for an expired
  token: \<open>authenticate\<close> stops the request with an answer of its own, forwards nothing,
  and the body it sends is not the one the error handler gives for the same error.
\<close>

theorem authenticate_bypasses_normalizer:
  "failed (authenticate sample_env sample_db (with_header ''Bearer old''))
   \<and> \<not> to_normalizer (authenticate sample_env sample_db (with_header ''Bearer old''))
   \<and> client_response sample_env (authenticate sample_env sample_db (with_header ''Bearer old''))
       = Some (Json (failure 401 ''Token has expired. Please login again.''))
   \<and> errorHandler sample_env sample_expired = Json (failure 401 ''Token expired.'')"
  by (simp add: authenticate_def Let_def authenticate_catch_def failed_def to_normalizer_def
      client_response_def errorHandler_def res_json_def failure_def sample_defs)

text \<open>
  Claim C4, amended. \<open>authenticate\<close> answers each of its failures itself, with its own
  body, and never passes one to the global error handler:
  \<^item> an absent Authorization header, or one that does not start with \<open>Bearer \<close>, gets
    401 with the message \<open>Authentication required. Please provide a valid token.\<close>;
  \<^item> an error thrown by the token verification or by the account lookup gets 401 with
    \<open>Invalid token.\<close> when its name is \<open>JsonWebTokenError\<close>, 401 with
    \<open>Token has expired. Please login again.\<close> when its name is \<open>TokenExpiredError\<close>,
    and otherwise 500 with \<open>Authentication error.\<close> and the error's own message under
    the key \<open>error\<close>;
  \<^item> a verified token whose subject id finds no account, or an inactive one, gets 401
    with \<open>Invalid or inactive user token.\<close>;
  \<^item> a verified token whose subject id finds an active account fails nothing: the
    request goes on with that account.

  The two authorization gates, run on an authenticated context, likewise answer their
  refusals themselves and pass nothing to the error handler: the role gate refuses
  exactly the roles other than \<open>admin\<close>, with 403 and
  \<open>Access denied. Admin privileges required.\<close>; the ownership gate refuses exactly the
  non-admin accounts whose id is not the owner id it resolves, with 403 and
  \<open>Access denied. You can only access your own resources.\<close>
\<close>

theorem authenticate_answers_itself:
  "\<not> to_normalizer (authenticate en d req)
   \<and> (authorization req = None \<or> (\<exists>h. authorization req = Some h \<and> \<not> prefix ''Bearer '' h) \<longrightarrow>
        authenticate en d req =
          Respond (failure 401 ''Authentication required. Please provide a valid token.''))
   \<and> (\<forall>token e.
         authorization req = Some (''Bearer '' @ token) \<and>
         (jwt_verify en token (JWT_SECRET en) (clock en) = Inl e \<or>
          (\<exists>p. jwt_verify en token (JWT_SECRET en) (clock en) = Inr p \<and>
               User_findByPk d (tok_id p) = Inl e)) \<longrightarrow>
         authenticate en d req =
           Respond
             (if err_name e = ''JsonWebTokenError'' then failure 401 ''Invalid token.''
              else if err_name e = ''TokenExpiredError''
                then failure 401 ''Token has expired. Please login again.''
              else \<lparr>status = 500, success = False, message = Some ''Authentication error.'',
                    error = Some (err_message e), stack = None, errors = None, data = None\<rparr>))
   \<and> (\<forall>token p found.
         authorization req = Some (''Bearer '' @ token) \<and>
         jwt_verify en token (JWT_SECRET en) (clock en) = Inr p \<and>
         User_findByPk d (tok_id p) = Inr found \<and>
         (found = None \<or> (\<exists>u. found = Some u \<and> \<not> isActive u)) \<longrightarrow>
         authenticate en d req = Respond (failure 401 ''Invalid or inactive user token.''))
   \<and> (\<forall>token p u.
         authorization req = Some (''Bearer '' @ token) \<and>
         jwt_verify en token (JWT_SECRET en) (clock en) = Inr p \<and>
         User_findByPk d (tok_id p) = Inr (Some u) \<and> isActive u \<longrightarrow>
         authenticate en d req = Next (req\<lparr>req_user := Some u\<rparr>))
   \<and> (\<forall>u. req_user req = Some u \<longrightarrow>
         \<not> to_normalizer (authorizeAdmin req) \<and>
         \<not> to_normalizer (authorizeOwnerOrAdmin req) \<and>
         authorizeAdmin req =
           (if role u \<noteq> ''admin''
            then Respond (failure 403 ''Access denied. Admin privileges required.'')
            else Next req) \<and>
         authorizeOwnerOrAdmin req =
           (if role u \<noteq> ''admin'' \<and> JStr (uid u) \<noteq> resolve_resourceUserId req
            then Respond (failure 403 ''Access denied. You can only access your own resources.'')
            else Next req))"
proof -
  have quiet: "\<not> to_normalizer (authenticate en d req)"
    using authenticate_cases [of en d req]
    by (auto simp: to_normalizer_def authenticate_catch_def split: if_splits)
  have header: "authenticate en d req =
      Respond (failure 401 ''Authentication required. Please provide a valid token.'')"
    if "authorization req = None \<or> (\<exists>h. authorization req = Some h \<and> \<not> prefix ''Bearer '' h)"
    using that by (auto simp: authenticate_def)
  have thrown: "authenticate en d req =
      Respond
        (if err_name e = ''JsonWebTokenError'' then failure 401 ''Invalid token.''
         else if err_name e = ''TokenExpiredError''
           then failure 401 ''Token has expired. Please login again.''
         else \<lparr>status = 500, success = False, message = Some ''Authentication error.'',
               error = Some (err_message e), stack = None, errors = None, data = None\<rparr>)"
    if h: "authorization req = Some (''Bearer '' @ token)"
      and e: "jwt_verify en token (JWT_SECRET en) (clock en) = Inl e \<or>
              (\<exists>p. jwt_verify en token (JWT_SECRET en) (clock en) = Inr p \<and>
                   User_findByPk d (tok_id p) = Inl e)"
    for token e
    using e by (auto simp: bearer_token [OF h] authenticate_catch_def failure_def)
  have account: "authenticate en d req = Respond (failure 401 ''Invalid or inactive user token.'')"
    if h: "authorization req = Some (''Bearer '' @ token)"
      and "jwt_verify en token (JWT_SECRET en) (clock en) = Inr p"
      and "User_findByPk d (tok_id p) = Inr found"
      and "found = None \<or> (\<exists>u. found = Some u \<and> \<not> isActive u)"
    for token and p :: jwt_payload and found
    using that(2-) by (auto simp: bearer_token [OF h])
  have passes: "authenticate en d req = Next (req\<lparr>req_user := Some u\<rparr>)"
    if h: "authorization req = Some (''Bearer '' @ token)"
      and "jwt_verify en token (JWT_SECRET en) (clock en) = Inr p"
      and "User_findByPk d (tok_id p) = Inr (Some u)" and "isActive u"
    for token and p :: jwt_payload and u
    using that(2-) by (simp add: bearer_token [OF h])
  have gates: "\<not> to_normalizer (authorizeAdmin req) \<and>
         \<not> to_normalizer (authorizeOwnerOrAdmin req) \<and>
         authorizeAdmin req =
           (if role u \<noteq> ''admin''
            then Respond (failure 403 ''Access denied. Admin privileges required.'')
            else Next req) \<and>
         authorizeOwnerOrAdmin req =
           (if role u \<noteq> ''admin'' \<and> JStr (uid u) \<noteq> resolve_resourceUserId req
            then Respond (failure 403 ''Access denied. You can only access your own resources.'')
            else Next req)"
    if "req_user req = Some u" for u
    using that
    by (simp add: to_normalizer_def authorizeAdmin_def authorizeOwnerOrAdmin_def Let_def)
  from quiet header thrown account passes gates show ?thesis by blast
qed

text \<open>
  A header of another scheme; the store refusing the connection while Alice's token is
  looked up; the token of the inactive Bob; and Alice, authenticated, at the role gate.
\<close>

theorem authenticate_answers_itself_witness:
  "authenticate sample_env sample_db (with_header ''Token abc'') =
     Respond (failure 401 ''Authentication required. Please provide a valid token.'')
   \<and> authenticate sample_env (sample_db\<lparr>db_fault := Some sample_refused\<rparr>) sample_request =
     Respond \<lparr>status = 500, success = False, message = Some ''Authentication error.'',
              error = Some ''connect ECONNREFUSED 127.0.0.1:5432'', stack = None,
              errors = None, data = None\<rparr>
   \<and> authenticate sample_env sample_db (with_header ''Bearer bob'') =
     Respond (failure 401 ''Invalid or inactive user token.'')
   \<and> authorizeAdmin (request_of alice) =
     Respond (failure 403 ''Access denied. Admin privileges required.'')"
proof -
  let ?d = "sample_db\<lparr>db_fault := Some sample_refused\<rparr>"
  have scheme: "authorization (with_header ''Token abc'') = None \<or>
      (\<exists>h. authorization (with_header ''Token abc'') = Some h \<and> \<not> prefix ''Bearer '' h)"
    by (simp add: with_header_def)
  from authenticate_answers_itself [of sample_env sample_db "with_header ''Token abc''"] scheme
  have one: "authenticate sample_env sample_db (with_header ''Token abc'') =
     Respond (failure 401 ''Authentication required. Please provide a valid token.'')"
    by blast
  have lost: "authorization sample_request = Some (''Bearer '' @ ''alice'') \<and>
      (jwt_verify sample_env ''alice'' (JWT_SECRET sample_env) (clock sample_env) = Inl sample_refused \<or>
       (\<exists>p. jwt_verify sample_env ''alice'' (JWT_SECRET sample_env) (clock sample_env) = Inr p \<and>
            User_findByPk ?d (tok_id p) = Inl sample_refused))"
    by (simp add: sample_request_def sample_env_def sample_verify_def User_findByPk_def
        sample_db_def)
  from authenticate_answers_itself [of sample_env ?d sample_request] lost
  have "authenticate sample_env ?d sample_request =
     Respond
       (if err_name sample_refused = ''JsonWebTokenError'' then failure 401 ''Invalid token.''
        else if err_name sample_refused = ''TokenExpiredError''
          then failure 401 ''Token has expired. Please login again.''
        else \<lparr>status = 500, success = False, message = Some ''Authentication error.'',
              error = Some (err_message sample_refused), stack = None, errors = None,
              data = None\<rparr>)"
    by blast
  then have two: "authenticate sample_env ?d sample_request =
     Respond \<lparr>status = 500, success = False, message = Some ''Authentication error.'',
              error = Some ''connect ECONNREFUSED 127.0.0.1:5432'', stack = None,
              errors = None, data = None\<rparr>"
    by (simp add: sample_refused_def)
  have idle: "authorization (with_header ''Bearer bob'') = Some (''Bearer '' @ ''bob'') \<and>
      jwt_verify sample_env ''bob'' (JWT_SECRET sample_env) (clock sample_env) =
        Inr \<lparr>tok_id = Some ''u-bob'', tok_claims = []\<rparr> \<and>
      User_findByPk sample_db (tok_id \<lparr>tok_id = Some ''u-bob'', tok_claims = []\<rparr>) =
        Inr (Some bob) \<and>
      (Some bob = None \<or> (\<exists>u. Some bob = Some u \<and> \<not> isActive u))"
    by (simp add: with_header_def sample_env_def sample_verify_def User_findByPk_def
        sample_db_def alice_def bob_def root_def)
  from authenticate_answers_itself [of sample_env sample_db "with_header ''Bearer bob''"] idle
  have three: "authenticate sample_env sample_db (with_header ''Bearer bob'') =
     Respond (failure 401 ''Invalid or inactive user token.'')"
    by blast
  have ctx: "req_user (request_of alice) = Some alice" by (simp add: request_of_def)
  from authenticate_answers_itself [of sample_env sample_db "request_of alice"] ctx
  have "authorizeAdmin (request_of alice) =
     (if role alice \<noteq> ''admin''
      then Respond (failure 403 ''Access denied. Admin privileges required.'')
      else Next (request_of alice))"
    by blast
  then have four: "authorizeAdmin (request_of alice) =
     Respond (failure 403 ''Access denied. Admin privileges required.'')"
    by (simp add: alice_def)
  from one two three four show ?thesis by simp
qed




section \<open>The product listing\<close>

text \<open>
  Claim C10. In a successful answer of the product listing to an account whose role is
  not \<open>admin\<close>, every row has the account's id as its owner column (and as the id of the
  included owner); for an \<open>admin\<close> the \<open>where\<close> clause carries no condition on the
  owner.
\<close>

theorem listing_owner_filter:
  assumes "req_user req = Some u"
    and "list_products en d req = Respond r"
    and "data r = Some pd"
  shows "(role u \<noteq> ''admin'' \<longrightarrow>
            (\<forall>p \<in> set (products pd). userId p = uid u \<and>
               (\<forall>ow. owner p = Some ow \<longrightarrow> owner_id ow = uid u)))
     \<and> (role u = ''admin'' \<longrightarrow> w_userId (build_where (sanitize_list (req_query req)) u) = None)"
proof -
  let ?q = "sanitize_list (req_query req)"
  have own: "userId p = uid u \<and> (\<forall>ow. owner p = Some ow \<longrightarrow> owner_id ow = uid u)"
    if nadm: "role u \<noteq> ''admin''" and p: "p \<in> set (products pd)" for p
  proof -
    from assms obtain count where
      "Product_findAndCountAll en d (build_where ?q u) (parseInt_or (q_limit ?q) 10)
          ((parseInt_or (q_page ?q) 1 - 1) * parseInt_or (q_limit ?q) 10) =
        Inr (count, products pd)"
      by (auto simp: list_products_def Let_def failure_def
          split: if_splits sum.splits prod.splits)
    from findAndCountAll_rows [OF this p] obtain q where
      m: "matches en (build_where ?q u) q" and e: "p = with_owner d q" by blast
    from nadm have "w_userId (build_where ?q u) = Some (uid u)"
      by (simp add: build_where_def Let_def)
    with m have "userId q = uid u" by (simp add: matches_def)
    with e show ?thesis
      by (auto simp: with_owner_def find_Some_iff)
  qed
  have adm: "w_userId (build_where ?q u) = None" if "role u = ''admin''"
    using that by (simp add: build_where_def Let_def split: option.splits)
  from own adm show ?thesis by blast
qed

text \<open>
  Alice lists the products and gets her laptop alone; the administrator's listing has
  both products.
\<close>

theorem listing_owner_filter_witness:
  "shown_owners (list_products sample_env sample_db (request_of alice)) = Some [''u-alice'']
   \<and> shown_owners (list_products sample_env sample_db (request_of root)) =
       Some [''u-root'', ''u-alice'']"
proof -
  let ?row = "with_owner sample_db laptop"
  let ?r = "\<lparr>status = 200, success = True, message = None, error = None, stack = None,
             errors = None,
             data = Some \<lparr>products = [?row],
                          pagination = \<lparr>pg_page = 1, pg_limit = 10, pg_total = 1, pg_pages = 1\<rparr>\<rparr>\<rparr>"
  have u: "req_user (request_of alice) = Some alice" by (simp add: request_of_def)
  have run: "list_products sample_env sample_db (request_of alice) = Respond ?r"
    by (simp add: list_products_def Let_def sanitize_list_def validate_list_def parseInt_or_def
        build_where_def Product_findAndCountAll_def matches_def ceil_div_def sample_defs)
  have dt: "data ?r = Some \<lparr>products = [?row],
                          pagination = \<lparr>pg_page = 1, pg_limit = 10, pg_total = 1, pg_pages = 1\<rparr>\<rparr>"
    by simp
  have na: "role alice \<noteq> ''admin''" by (simp add: alice_def)
  from listing_owner_filter [OF u run dt] na
  have "userId ?row = ''u-alice''" by (simp add: alice_def)
  then have a: "shown_owners (list_products sample_env sample_db (request_of alice)) =
      Some [''u-alice'']"
    by (simp add: run shown_owners_def)
  have b: "shown_owners (list_products sample_env sample_db (request_of root)) =
      Some [''u-root'', ''u-alice'']"
    by (simp add: list_products_def Let_def sanitize_list_def validate_list_def parseInt_or_def
        build_where_def Product_findAndCountAll_def matches_def ceil_div_def with_owner_def
        shown_owners_def sample_defs)
  from a b show ?thesis by simp
qed

end
